theory Spec2Isabelle
  imports Main "HOL-Library.Word"
begin

text \<open>
  A shallow embedding of three parts of unrealsdk: the initialization gate and the C
  surface of \<^verbatim>\<open>unrealsdk_main.cpp\<close>, the registry wrapper that
  \<^verbatim>\<open>unreal/wrappers/gobjects.h\<close> declares, and the layout descriptors of
  \<^verbatim>\<open>game/bl3/offsets.h\<close>. The definitions come first, the properties after them.
\<close>

section \<open>Common types\<close>

text \<open>
  Raw host addresses (\<^verbatim>\<open>UObject*\<close>, \<^verbatim>\<open>UClass*\<close>, \<^verbatim>\<open>void*\<close>) are natural numbers; the null
  pointer is address 0.
\<close>

type_synonym addr = nat

definition nullptr :: addr where
  "nullptr = 0"

text \<open>
  What ends a call other than a normal return: a C++ exception (by its class and its
  message), or the dereference of a null pointer, which is undefined behaviour in C++
  and is kept apart here as a value of its own.
\<close>

datatype abort =
    RuntimeError string
  | OutOfRange
  | OtherException string
  | NullDereference

text \<open>\<^verbatim>\<open>FName\<close>: the code builds the default name as \<^verbatim>\<open>FName{0, 0}\<close>.\<close>

record FName =
  index :: int
  number :: int

text \<open>
  A computation over a state \<open>'s\<close> that returns an \<open>'a\<close> or aborts; the state it leaves
  behind is returned in both cases.
\<close>

type_synonym ('a, 's) prog = "'s \<Rightarrow> (abort + 'a) \<times> 's"

definition ret :: "'a \<Rightarrow> ('a, 's) prog" where
  "ret a s = (Inr a, s)"

definition throw :: "abort \<Rightarrow> ('a, 's) prog" where
  "throw e s = (Inl e, s)"

definition seq :: "('a, 's) prog \<Rightarrow> ('a \<Rightarrow> ('b, 's) prog) \<Rightarrow> ('b, 's) prog" where
  "seq m k s = (case m s of (Inl e, s') \<Rightarrow> (Inl e, s') | (Inr a, s') \<Rightarrow> k a s')"

section \<open>The initialization gate and the C surface (unrealsdk\_main.cpp)\<close>

datatype MH_STATUS = MH_OK | MH_ERROR int

text \<open>
  Everything \<^verbatim>\<open>unrealsdk_main.cpp\<close> calls and does not define is a parameter: the
  configuration and logging modules, MinHook, and the virtual methods of
  \<^verbatim>\<open>game::AbstractHook\<close>. \<open>'w\<close> is the state of the process outside this file (the
  host, the hooking substrate, the log, the hook objects' own fields); \<open>'h\<close> is the
  identity of a hook object, so a \<^verbatim>\<open>std::unique_ptr<AbstractHook>\<close> is an \<open>'h option\<close>
  with \<open>None\<close> for the null pointer. Every external call may throw.
\<close>

record ('h, 'w) externals =
  config_load :: "(unit, 'w) prog"
  get_this_dll_parent_path :: "'w \<Rightarrow> string"
  config_get_str :: "string \<Rightarrow> 'w \<Rightarrow> string option"
  path_append :: "string \<Rightarrow> string \<Rightarrow> string"
  logging_init :: "string \<Rightarrow> (unit, 'w) prog"
  get_version_string :: "string"
  LOG_INFO :: "string \<Rightarrow> (unit, 'w) prog"
  MH_Initialize :: "(MH_STATUS, 'w) prog"
  hook :: "'h \<Rightarrow> (unit, 'w) prog"
  post_init :: "'h \<Rightarrow> (unit, 'w) prog"
  destroy :: "'h \<Rightarrow> 'w \<Rightarrow> 'w"
  hook_is_console_ready :: "'h \<Rightarrow> (bool, 'w) prog"
  hook_uconsole_output_text :: "'h \<Rightarrow> nat list \<Rightarrow> (unit, 'w) prog"
  hook_construct_object ::
    "'h \<Rightarrow> addr \<Rightarrow> addr \<Rightarrow> FName \<Rightarrow> 64 word \<Rightarrow> addr \<Rightarrow> (addr, 'w) prog"

text \<open>
  The state of the process: the file's static \<^verbatim>\<open>hook_instance\<close> and the rest. The model
  is sequential: \<^verbatim>\<open>init_mutex\<close>, which \<^verbatim>\<open>init\<close> and \<^verbatim>\<open>is_initialized\<close> hold for their whole
  bodies, is what makes each of them one step. \<^verbatim>\<open>hook_instance\<close> lives in an anonymous
  namespace: external code changes the world, never \<^verbatim>\<open>hook_instance\<close>.
\<close>

record ('h, 'w) process =
  hook_instance :: "'h option"
  world :: 'w

definition call :: "('a, 'w) prog \<Rightarrow> ('a, ('h, 'w) process) prog" where
  "call m s = (case m (world s) of (r, w') \<Rightarrow> (r, s\<lparr>world := w'\<rparr>))"

text \<open>
  \<^verbatim>\<open>game->hook()\<close> on the local \<^verbatim>\<open>game\<close>: a null \<^verbatim>\<open>game\<close> is a null dereference; when
  \<^verbatim>\<open>hook()\<close> throws, the local \<^verbatim>\<open>unique_ptr\<close> goes out of scope and destroys the object.
\<close>

definition call_hook ::
  "('h, 'w) externals \<Rightarrow> 'h option \<Rightarrow> ('h, ('h, 'w) process) prog" where
  "call_hook env game s =
     (case game of
        None \<Rightarrow> (Inl NullDereference, s)
      | Some g \<Rightarrow>
          (case hook env g (world s) of
             (Inl e, w') \<Rightarrow> (Inl e, s\<lparr>world := destroy env g w'\<rparr>)
           | (Inr u, w') \<Rightarrow> (Inr g, s\<lparr>world := w'\<rparr>)))"

definition init ::
  "('h, 'w) externals \<Rightarrow> ('h option, 'w) prog \<Rightarrow> (bool, ('h, 'w) process) prog" where
  "init env game_getter s =
     (if hook_instance s \<noteq> None then (Inr False, s)
      else
        seq (call (config_load env)) (\<lambda>_.
        seq (\<lambda>s. call (logging_init env
                (path_append env (get_this_dll_parent_path env (world s))
                   (case config_get_str env ''unrealsdk.log_file'' (world s) of
                      None \<Rightarrow> ''unrealsdk.log'' | Some f \<Rightarrow> f))) s) (\<lambda>_.
        seq (call (LOG_INFO env (get_version_string env))) (\<lambda>_.
        seq (call (LOG_INFO env
                (replicate (length (get_version_string env)) (CHR ''='')))) (\<lambda>_.
        seq (call (MH_Initialize env)) (\<lambda>status.
        if status \<noteq> MH_OK then throw (RuntimeError ''Minhook initialization failed!'')
        else
        seq (call game_getter) (\<lambda>game.
        seq (call_hook env game) (\<lambda>g.
        seq (\<lambda>s. (Inr (), s\<lparr>hook_instance := Some g\<rparr>)) (\<lambda>_.
        seq (\<lambda>s. case hook_instance s of
                    None \<Rightarrow> (Inl NullDereference, s)
                  | Some h \<Rightarrow> call (post_init env h) s) (\<lambda>_.
        ret True))))))))) s)"

definition is_initialized :: "('h, 'w) process \<Rightarrow> bool" where
  "is_initialized s = (hook_instance s \<noteq> None)"

definition is_console_ready ::
  "('h, 'w) externals \<Rightarrow> (bool, ('h, 'w) process) prog" where
  "is_console_ready env s =
     (if is_initialized s
      then (case hook_instance s of
              None \<Rightarrow> (Inl NullDereference, s)
            | Some h \<Rightarrow> call (hook_is_console_ready env h) s)
      else (Inr False, s))"

text \<open>
  \<^verbatim>\<open>const FName* name\<close> is an \<open>FName option\<close>: \<open>None\<close> is the null pointer, \<open>Some n\<close> a
  pointer to the name \<open>n\<close>.
\<close>

definition construct_object ::
  "('h, 'w) externals \<Rightarrow> addr \<Rightarrow> addr \<Rightarrow> FName option \<Rightarrow> 64 word \<Rightarrow> addr
     \<Rightarrow> (addr, ('h, 'w) process) prog" where
  "construct_object env cls outer name flags template_obj s =
     (let local_name = (case name of
                          None \<Rightarrow> \<lparr>index = 0, number = 0\<rparr>
                        | Some n \<Rightarrow> n)
      in case hook_instance s of
           None \<Rightarrow> (Inl NullDereference, s)
         | Some h \<Rightarrow>
             call (hook_construct_object env h cls outer local_name flags template_obj) s)"

definition uconsole_output_text ::
  "('h, 'w) externals \<Rightarrow> nat list \<Rightarrow> (unit, ('h, 'w) process) prog" where
  "uconsole_output_text env str s =
     (case hook_instance s of
        None \<Rightarrow> (Inr (), s)
      | Some h \<Rightarrow> call (hook_uconsole_output_text env h str) s)"

text \<open>
  The steps of \<^verbatim>\<open>init\<close> that come before the assignment to \<^verbatim>\<open>hook_instance\<close> (lines 54 to
  69 of the file), as a computation over the world alone: it returns the hook object
  on which \<^verbatim>\<open>hook()\<close> has returned. It is the yardstick for the publication theorem.
\<close>

definition install ::
  "('h, 'w) externals \<Rightarrow> ('h option, 'w) prog \<Rightarrow> ('h, 'w) prog" where
  "install env game_getter =
     seq (config_load env) (\<lambda>_.
     seq (\<lambda>w. logging_init env
             (path_append env (get_this_dll_parent_path env w)
                (case config_get_str env ''unrealsdk.log_file'' w of
                   None \<Rightarrow> ''unrealsdk.log'' | Some f \<Rightarrow> f)) w) (\<lambda>_.
     seq (LOG_INFO env (get_version_string env)) (\<lambda>_.
     seq (LOG_INFO env (replicate (length (get_version_string env)) (CHR ''=''))) (\<lambda>_.
     seq (MH_Initialize env) (\<lambda>status.
     if status \<noteq> MH_OK then throw (RuntimeError ''Minhook initialization failed!'')
     else
     seq game_getter (\<lambda>game.
       case game of
         None \<Rightarrow> throw NullDereference
       | Some g \<Rightarrow>
           (\<lambda>w. case hook env g w of
                  (Inl e, w') \<Rightarrow> (Inl e, destroy env g w')
                | (Inr u, w') \<Rightarrow> (Inr g, w'))))))))"

subsection \<open>A concrete process\<close>

text \<open>
  A small environment to run the definitions on: hook objects are numbers, the world is
  the list of the external calls made so far.
\<close>

definition demo_env :: "(nat, string list) externals" where
  "demo_env =
     \<lparr>config_load = (\<lambda>w. (Inr (), w @ [''config::load''])),
      get_this_dll_parent_path = (\<lambda>w. ''sdk''),
      config_get_str = (\<lambda>k w. None),
      path_append = (\<lambda>a b. a @ ''/'' @ b),
      logging_init = (\<lambda>p w. (Inr (), w @ [''logging::init '' @ p])),
      get_version_string = ''v1'',
      LOG_INFO = (\<lambda>m w. (Inr (), w @ [''LOG '' @ m])),
      MH_Initialize = (\<lambda>w. (Inr MH_OK, w @ [''MH_Initialize''])),
      hook = (\<lambda>h w. (Inr (), w @ [''hook''])),
      post_init = (\<lambda>h w. (Inr (), w @ [''post_init''])),
      destroy = (\<lambda>h w. w @ [''destroy'']),
      hook_is_console_ready = (\<lambda>h w. (Inr True, w)),
      hook_uconsole_output_text = (\<lambda>h str w. (Inr (), w @ [''console''])),
      hook_construct_object =
        (\<lambda>h cls outer name flags template_obj w.
           (Inr (nat (index name) + 1000), w @ [''construct'']))\<rparr>"

definition demo_getter :: "nat \<Rightarrow> (nat option, string list) prog" where
  "demo_getter n w = (Inr (Some n), w @ [''game_getter''])"

definition demo_start :: "(nat, string list) process" where
  "demo_start = \<lparr>hook_instance = None, world = []\<rparr>"

definition demo_ready :: "(nat, string list) process" where
  "demo_ready =
     \<lparr>hook_instance = Some 7,
      world = [''config::load'', ''logging::init sdk/unrealsdk.log'', ''LOG v1'', ''LOG =='',
               ''MH_Initialize'', ''game_getter'', ''hook'', ''post_init'']\<rparr>"

text \<open>The same environment with a hooking substrate that fails to initialize.\<close>

definition demo_env_no_minhook :: "(nat, string list) externals" where
  "demo_env_no_minhook = demo_env\<lparr>MH_Initialize := (\<lambda>w. (Inr (MH_ERROR 1), w))\<rparr>"

definition demo_failed :: "(nat, string list) process" where
  "demo_failed =
     \<lparr>hook_instance = None,
      world = [''config::load'', ''logging::init sdk/unrealsdk.log'', ''LOG v1'', ''LOG =='']\<rparr>"

section \<open>The global registry wrapper (gobjects.h)\<close>

text \<open>
  The header declares the wrapper and its iterator; their member functions are defined
  elsewhere. The data below is the host's: \<^verbatim>\<open>UObject\<close> as \<^verbatim>\<open>game/bl3/offsets.h\<close> lays it
  out (the private \<^verbatim>\<open>vftable\<close> apart), and the object array behind \<^verbatim>\<open>FUObjectArray*\<close>.
\<close>

record UObject_data =
  ObjectFlags :: int
  InternalIndex :: int
  Class :: addr
  Name :: FName
  Outer :: addr

text \<open>
  Modelled from the spec: a slot of the host's registry (\<^verbatim>\<open>unreal/structs/gobjects.h\<close> is
  missing). It holds the address of an object, null when the host has freed the slot,
  and the slot's serial number.
\<close>

record FUObjectItem =
  Object :: addr
  SerialNumber :: int

text \<open>
  Modelled from the spec: the host's registry structure, the target of \<^verbatim>\<open>FUObjectArray*\<close>
  (\<^verbatim>\<open>unreal/structs/gobjects.h\<close> is missing). It holds the host-reported count and the
  storage. The storage is a function of the slot number, so that what lies past the
  count can be written down too. Counts and indices are natural numbers: the
  operations below only compare them, and a host count is far below the range of
  \<^verbatim>\<open>size_t\<close>.
\<close>

record FUObjectArray =
  Count :: nat
  Objects :: "nat \<Rightarrow> FUObjectItem"

text \<open>Host memory: the registry structures and the objects, by address.\<close>

record host =
  object_arrays :: "addr \<Rightarrow> FUObjectArray"
  uobjects :: "addr \<Rightarrow> UObject_data"

text \<open>
  Modelled from the spec: \<^verbatim>\<open>FWeakObjectPtr\<close> (only forward-declared in the header), an
  object index and a serial number.
\<close>

record FWeakObjectPtr =
  object_index :: int
  object_serial_number :: int

text \<open>
  Modelled from the spec: the "no object" encoding of a weak reference. The spec leaves
  the encoding open; the index \<open>-1\<close> is outside every registry's range.
\<close>

definition FWeakObjectPtr_null :: FWeakObjectPtr where
  "FWeakObjectPtr_null = \<lparr>object_index = - 1, object_serial_number = 0\<rparr>"

text \<open>The wrapper's only data member is \<^verbatim>\<open>internal\<close>, the pointer to the host structure.\<close>

record GObjects =
  internal :: addr

text \<open>
  Modelled from the spec: \<^verbatim>\<open>GObjects::size\<close> (declared in the header, defined in a file
  that is missing): the current element count, read from the host structure on every
  call.
\<close>

definition size_gobjects :: "host \<Rightarrow> GObjects \<Rightarrow> nat" where
  "size_gobjects h g = Count (object_arrays h (internal g))"

text \<open>
  Modelled from the spec: \<^verbatim>\<open>GObjects::obj_at\<close>: the object reference stored at the index;
  an out-of-range error when the index is not below \<^verbatim>\<open>size()\<close>.
\<close>

definition obj_at :: "host \<Rightarrow> GObjects \<Rightarrow> nat \<Rightarrow> abort + addr" where
  "obj_at h g idx =
     (if idx \<ge> size_gobjects h g then Inl OutOfRange
      else Inr (Object (Objects (object_arrays h (internal g)) idx)))"

text \<open>
  Modelled from the spec: \<^verbatim>\<open>GObjects::get_weak_object\<close>: an index outside the logical
  range, a serial that does not match the slot's, and an empty slot all give "no
  object"; otherwise the slot's object.
\<close>

definition get_weak_object :: "host \<Rightarrow> GObjects \<Rightarrow> FWeakObjectPtr \<Rightarrow> abort + addr" where
  "get_weak_object h g ptr =
     (if object_index ptr < 0 \<or> int (size_gobjects h g) \<le> object_index ptr
      then Inr nullptr
      else
        (let item = Objects (object_arrays h (internal g)) (nat (object_index ptr))
         in if SerialNumber item \<noteq> object_serial_number ptr then Inr nullptr
            else if Object item = nullptr then Inr nullptr
            else Inr (Object item)))"

text \<open>
  Modelled from the spec: \<^verbatim>\<open>GObjects::set_weak_object\<close>: writes the index and the serial
  of the object's current slot, the slot its \<^verbatim>\<open>InternalIndex\<close> names; for a null object
  the "no object" encoding. The result is the new content of \<^verbatim>\<open>*ptr\<close>.
\<close>

definition set_weak_object ::
  "host \<Rightarrow> GObjects \<Rightarrow> FWeakObjectPtr \<Rightarrow> addr \<Rightarrow> FWeakObjectPtr" where
  "set_weak_object h g ptr obj =
     (if obj = nullptr then FWeakObjectPtr_null
      else
        ptr\<lparr>object_index := InternalIndex (uobjects h obj),
            object_serial_number :=
              SerialNumber (Objects (object_arrays h (internal g))
                (nat (InternalIndex (uobjects h obj))))\<rparr>)"

text \<open>
  The iterator's data members, as the header declares them: a pointer to the wrapper
  (null in a default-constructed iterator) and an index.
\<close>

record Iterator =
  gobjects :: "GObjects option"
  idx :: nat

definition SIZE_MAX :: nat where
  "SIZE_MAX = 2 ^ 64 - 1"

text \<open>
  Modelled from the spec: \<^verbatim>\<open>GObjects::end\<close> (declared in the header, defined in a file that
  is missing). It is static and cannot look at a registry; the position past the last
  index is taken to be the largest \<^verbatim>\<open>size_t\<close> in a default-constructed iterator, which the
  spec does not fix.
\<close>

definition end_gobjects :: Iterator where
  "end_gobjects = \<lparr>gobjects = None, idx = SIZE_MAX\<rparr>"

text \<open>
  Modelled from the spec: \<^verbatim>\<open>GObjects::begin\<close>. Iteration runs from index 0 over the
  indices below the count; over an empty registry it yields nothing, so \<^verbatim>\<open>begin()\<close> is
  \<^verbatim>\<open>end()\<close> there.
\<close>

definition begin_gobjects :: "host \<Rightarrow> GObjects \<Rightarrow> Iterator" where
  "begin_gobjects h g =
     (if size_gobjects h g = 0 then end_gobjects else \<lparr>gobjects = Some g, idx = 0\<rparr>)"

text \<open>
  Modelled from the spec: \<^verbatim>\<open>Iterator::operator*\<close>. Each dereference reads the live slot
  at the iterator's index.
\<close>

definition Iterator_deref :: "host \<Rightarrow> Iterator \<Rightarrow> abort + addr" where
  "Iterator_deref h it =
     (case gobjects it of
        None \<Rightarrow> Inl NullDereference
      | Some g \<Rightarrow> obj_at h g (idx it))"

text \<open>
  Modelled from the spec: \<^verbatim>\<open>Iterator::operator++\<close>. It moves to the next index, and to the
  end position once the count is reached. The count is read from the host state the
  iteration runs in.
\<close>

definition Iterator_incr :: "host \<Rightarrow> Iterator \<Rightarrow> Iterator" where
  "Iterator_incr h it =
     (case gobjects it of
        None \<Rightarrow> it
      | Some g \<Rightarrow>
          if idx it + 1 < size_gobjects h g then it\<lparr>idx := idx it + 1\<rparr>
          else end_gobjects)"

text \<open>An object occupies a live slot: its own index names a slot below the count that holds it.\<close>

definition occupies_live_slot :: "host \<Rightarrow> GObjects \<Rightarrow> addr \<Rightarrow> bool" where
  "occupies_live_slot h g x =
     (x \<noteq> nullptr \<and> 0 \<le> InternalIndex (uobjects h x) \<and>
      nat (InternalIndex (uobjects h x)) < size_gobjects h g \<and>
      Object (Objects (object_arrays h (internal g)) (nat (InternalIndex (uobjects h x)))) = x)"

text \<open>Two host states that report the same count and agree on every slot below it.\<close>

definition same_below_count :: "host \<Rightarrow> host \<Rightarrow> GObjects \<Rightarrow> bool" where
  "same_below_count h h' g =
     (Count (object_arrays h' (internal g)) = Count (object_arrays h (internal g)) \<and>
      (\<forall>i < Count (object_arrays h (internal g)).
         Objects (object_arrays h' (internal g)) i = Objects (object_arrays h (internal g)) i))"

text \<open>The host changes the count of a registry structure.\<close>

definition host_set_count :: "host \<Rightarrow> addr \<Rightarrow> nat \<Rightarrow> host" where
  "host_set_count h a n =
     h\<lparr>object_arrays := (object_arrays h)(a := (object_arrays h a)\<lparr>Count := n\<rparr>)\<rparr>"

text \<open>The host writes a slot (frees it, reuses it, gives it a new serial).\<close>

definition host_set_slot :: "host \<Rightarrow> addr \<Rightarrow> nat \<Rightarrow> FUObjectItem \<Rightarrow> host" where
  "host_set_slot h a i item =
     h\<lparr>object_arrays :=
         (object_arrays h)(a := (object_arrays h a)
            \<lparr>Objects := (Objects (object_arrays h a))(i := item)\<rparr>)\<rparr>"

subsection \<open>A concrete registry\<close>

text \<open>
  Three slots in use at address 4096: objects 100 and 300 in slots 0 and 2, slot 1 freed.
  Slot 3 lies past the count and still holds a stale object 999.
\<close>

definition demo_items :: "nat \<Rightarrow> FUObjectItem" where
  "demo_items i =
     (if i = 0 then \<lparr>Object = 100, SerialNumber = 7\<rparr>
      else if i = 1 then \<lparr>Object = 0, SerialNumber = 0\<rparr>
      else if i = 2 then \<lparr>Object = 300, SerialNumber = 9\<rparr>
      else \<lparr>Object = 999, SerialNumber = 5\<rparr>)"

definition demo_host :: host where
  "demo_host =
     \<lparr>object_arrays = (\<lambda>a. \<lparr>Count = 3, Objects = demo_items\<rparr>),
      uobjects = (\<lambda>a. \<lparr>ObjectFlags = 0,
                        InternalIndex = (if a = 100 then 0 else if a = 300 then 2 else 3),
                        Class = 0, Name = \<lparr>index = 0, number = 0\<rparr>, Outer = 0\<rparr>)\<rparr>"

definition demo_gobjects :: GObjects where
  "demo_gobjects = \<lparr>internal = 4096\<rparr>"

section \<open>The layout descriptors of the bl3 flavour (game/bl3/offsets.h)\<close>

text \<open>
  The classes that \<^verbatim>\<open>offsets.h\<close> defines in \<^verbatim>\<open>unrealsdk::game::bl3\<close>, and \<^verbatim>\<open>UField\<close>, which it
  names as \<^verbatim>\<open>unreal::offsets::generic::UField<UObject>\<close>.
\<close>

datatype descriptor =
    UObject | UField | UProperty | UStruct | UClass | UFunction | UEnum
  | UFloatProperty | UIntProperty | UBoolProperty

text \<open>
  Modelled from the spec: the template \<^verbatim>\<open>unreal::offsets::generic::UField<T>\<close>, which is
  defined in a missing file. A field extends the class it is instantiated with.
\<close>

definition generic_UField_base :: "descriptor \<Rightarrow> descriptor option" where
  "generic_UField_base T = Some T"

text \<open>
  Modelled from the spec: the one member the template \<^verbatim>\<open>generic::UField<T>\<close> adds, the
  "next field" pointer of the linked list of fields.
\<close>

definition generic_UField_members :: "(string \<times> string) list" where
  "generic_UField_members = [(''UField*'', ''Next'')]"

text \<open>The base class each one is declared with.\<close>

fun base_class :: "descriptor \<Rightarrow> descriptor option" where
  "base_class UObject = None"
| "base_class UField = generic_UField_base UObject"
| "base_class UProperty = Some UField"
| "base_class UStruct = Some UField"
| "base_class UClass = Some UStruct"
| "base_class UFunction = Some UStruct"
| "base_class UEnum = Some UField"
| "base_class UFloatProperty = Some UProperty"
| "base_class UIntProperty = Some UProperty"
| "base_class UBoolProperty = Some UProperty"

text \<open>The data members each class declares itself, as (type, name) in declaration order.\<close>

fun members :: "descriptor \<Rightarrow> (string \<times> string) list" where
  "members UObject =
     [(''uintptr_t*'', ''vftable''), (''int32_t'', ''ObjectFlags''),
      (''int32_t'', ''InternalIndex''), (''UClass*'', ''Class''),
      (''unreal::FName'', ''Name''), (''UObject*'', ''Outer'')]"
| "members UField = generic_UField_members"
| "members UProperty =
     [(''int32_t'', ''ArrayDim''), (''int32_t'', ''ElementSize''),
      (''uint64_t'', ''PropertyFlags''), (''uint16_t'', ''RepIndex''),
      (''uint8_t'', ''BlueprintReplicationCondition''), (''int32_t'', ''Offset_Internal''),
      (''unreal::FName'', ''RepNotifyFunc''), (''UProperty*'', ''PropertyLinkNext''),
      (''UProperty*'', ''NextRef''), (''UProperty*'', ''DestructorLinkNext''),
      (''UProperty*'', ''PostConstructLinkNext'')]"
| "members UStruct =
     [(''UStruct*'', ''SuperField''), (''UField*'', ''Children''),
      (''int32_t'', ''PropertySize''), (''int32_t'', ''MinAlignment''),
      (''unreal::TArray<uint8_t>'', ''Script''), (''UProperty*'', ''PropertyLink''),
      (''UProperty*'', ''RefLink''), (''UProperty*'', ''DestructorLink''),
      (''UProperty*'', ''PostConstructLink''),
      (''unreal::TArray<UObject*>'', ''ScriptObjectReferences'')]"
| "members UClass =
     [(''uint8_t[0x70]'', ''UnknownData00''), (''UObject*'', ''ClassDefaultObject''),
      (''uint8_t[0xA0]'', ''UnknownData01''),
      (''unreal::TArray<unreal::FImplementedInterface>'', ''Interfaces'')]"
| "members UFunction =
     [(''uint32_t'', ''FunctionFlags''), (''uint8_t'', ''NumParams''),
      (''uint16_t'', ''ParamsSize''), (''uint16_t'', ''ReturnValueOffset''),
      (''uint16_t'', ''RPCId''), (''uint16_t'', ''RPCResponseId''),
      (''UProperty*'', ''FirstPropertyToInit''), (''UFunction*'', ''EventGraphFunction''),
      (''int32_t'', ''EventGraphCallOffset''), (''void*'', ''Func'')]"
| "members UEnum =
     [(''unreal::UnmanagedFString'', ''CppType''),
      (''unreal::TArray<unreal::TPair<unreal::FName, uint64_t>>'', ''Names''),
      (''int64_t'', ''CppForm'')]"
| "members UFloatProperty = []"
| "members UIntProperty = []"
| "members UBoolProperty =
     [(''uint8_t'', ''FieldSize''), (''uint8_t'', ''ByteOffset''),
      (''uint8_t'', ''ByteMask''), (''uint8_t'', ''FieldMask'')]"

text \<open>The depth of a class below \<^verbatim>\<open>UObject\<close>.\<close>

fun depth :: "descriptor \<Rightarrow> nat" where
  "depth UObject = 0"
| "depth UField = 1"
| "depth UProperty = 2"
| "depth UStruct = 2"
| "depth UEnum = 2"
| "depth UClass = 3"
| "depth UFunction = 3"
| "depth UFloatProperty = 3"
| "depth UIntProperty = 3"
| "depth UBoolProperty = 3"

text \<open>
  The sequence of members of a class: those of its base class subobject, which comes
  first, then its own.
\<close>

function layout :: "descriptor \<Rightarrow> (string \<times> string) list" where
  "layout d =
     (case base_class d of
        None \<Rightarrow> members d
      | Some b \<Rightarrow> layout b @ members d)"
  by pat_completeness auto
termination
proof (relation "measure depth")
  show "wf (measure depth)"
    by simp
next
  fix d b
  assume "base_class d = Some b"
  then show "(b, d) \<in> measure depth"
    by (cases d) (auto simp: generic_UField_base_def)
qed

declare layout.simps [simp del]

section \<open>Properties of the initialization gate and the C surface\<close>

subsection \<open>Sequencing\<close>

lemma call_seq: "call (seq m k) = seq (call m) (\<lambda>a. call (k a))"
  by (rule ext) (simp add: call_def seq_def split: prod.splits sum.splits)

lemma call_throw: "call (throw e) = throw e"
  by (rule ext) (simp add: call_def throw_def)

lemma call_world: "(\<lambda>s. call (f (world s)) s) = call (\<lambda>w. f w w)"
  by (rule ext) (simp add: call_def)

lemma call_hook_call:
  "call_hook env game =
     call (case game of
             None \<Rightarrow> throw NullDereference
           | Some g \<Rightarrow>
               (\<lambda>w. case hook env g w of
                      (Inl e, w') \<Rightarrow> (Inl e, destroy env g w')
                    | (Inr u, w') \<Rightarrow> (Inr g, w')))"
  by (rule ext)
    (simp add: call_hook_def call_def throw_def split: option.splits prod.splits sum.splits)

lemma seq_assoc: "seq (seq m k) k' = seq m (\<lambda>a. seq (k a) k')"
  by (rule ext) (simp add: seq_def split: prod.splits sum.splits)

lemma seq_throw: "seq (throw e) k = throw e"
  by (rule ext) (simp add: seq_def throw_def)

lemma seq_if: "seq (if b then m else n) k = (if b then seq m k else seq n k)"
  by simp

lemma init_install:
  assumes "hook_instance s = None"
  shows "init env gg s =
     seq (call (install env gg)) (\<lambda>g.
     seq (\<lambda>s. (Inr (), s\<lparr>hook_instance := Some g\<rparr>)) (\<lambda>_.
     seq (\<lambda>s. case hook_instance s of
                 None \<Rightarrow> (Inl NullDereference, s)
               | Some h \<Rightarrow> call (post_init env h) s) (\<lambda>_.
     ret True))) s"
proof -
  have lg: "call (\<lambda>w. logging_init env
                (path_append env (get_this_dll_parent_path env w)
                   (case config_get_str env ''unrealsdk.log_file'' w of
                      None \<Rightarrow> ''unrealsdk.log'' | Some f \<Rightarrow> f)) w)
        = (\<lambda>s::('a, 'b) process. call (logging_init env
                (path_append env (get_this_dll_parent_path env (world s))
                   (case config_get_str env ''unrealsdk.log_file'' (world s) of
                      None \<Rightarrow> ''unrealsdk.log'' | Some f \<Rightarrow> f))) s)"
    by (rule call_world [symmetric])
  show ?thesis
    using assms
    by (simp add: init_def install_def call_seq call_throw lg call_hook_call
        seq_assoc seq_throw seq_if if_distrib [of call] cong: if_cong)
qed

lemma init_already:
  "hook_instance s = Some h \<Longrightarrow> init env gg s = (Inr False, s)"
  by (simp add: init_def)

lemma init_fresh:
  assumes "hook_instance s = None"
  shows "init env gg s =
     (case install env gg (world s) of
        (Inl e, w) \<Rightarrow> (Inl e, s\<lparr>world := w\<rparr>)
      | (Inr g, w) \<Rightarrow>
          (case post_init env g w of
             (Inl e, w') \<Rightarrow> (Inl e, \<lparr>hook_instance = Some g, world = w'\<rparr>)
           | (Inr u, w') \<Rightarrow> (Inr True, \<lparr>hook_instance = Some g, world = w'\<rparr>)))"
proof -
  obtain r w where iw: "install env gg (world s) = (r, w)"
    by (cases "install env gg (world s)")
  show ?thesis
  proof (cases r)
    case (Inl e)
    with iw show ?thesis
      by (simp add: init_install [OF assms] seq_def call_def)
  next
    case (Inr g)
    obtain r' w' where pw: "post_init env g w = (r', w')"
      by (cases "post_init env g w")
    from Inr iw pw show ?thesis
      by (cases r') (simp_all add: init_install [OF assms] seq_def call_def ret_def)
  qed
qed

lemma install_hook_returned:
  assumes "install env gg w0 = (Inr g, w)"
  shows "\<exists>w1. hook env g w1 = (Inr (), w)"
  using assms
  by (auto simp: install_def seq_def throw_def
      split: prod.splits sum.splits if_splits option.splits)

lemma demo_install: "install demo_env (demo_getter n) [] =
  (Inr n, [''config::load'', ''logging::init sdk/unrealsdk.log'', ''LOG v1'', ''LOG =='',
               ''MH_Initialize'', ''game_getter'', ''hook''])"
  by (simp add: install_def demo_env_def demo_getter_def seq_def)

lemma demo_init: "init demo_env (demo_getter 7) demo_start = (Inr True, demo_ready)"
  by (simp add: init_fresh demo_start_def demo_install demo_ready_def)
    (simp add: demo_env_def)

lemma demo_install_no_minhook:
  "install demo_env_no_minhook (demo_getter n) [] =
     (Inl (RuntimeError ''Minhook initialization failed!''),
      [''config::load'', ''logging::init sdk/unrealsdk.log'', ''LOG v1'', ''LOG ==''])"
  by (simp add: install_def demo_env_no_minhook_def demo_env_def seq_def throw_def)

subsection \<open>Double initialization\<close>

text \<open>
  Claim C3. \<^verbatim>\<open>init\<close> called twice: a first call (no hook bound yet) that returns, returns
  true and leaves a hook bound; the second call, with any factory, returns false and
  leaves the whole process state as it was: the bound hook is the same and no external
  step has run again.
\<close>

theorem init_twice:
  assumes "hook_instance s0 = None" and "init env getter1 s0 = (Inr r1, s1)"
  shows "r1 = True \<and> is_initialized s1 \<and> init env getter2 s1 = (Inr False, s1)"
  using assms
  by (auto simp: init_fresh init_already is_initialized_def split: prod.splits sum.splits)

theorem init_twice_witness:
  "hook_instance demo_start = None \<and>
   init demo_env (demo_getter 7) demo_start = (Inr True, demo_ready) \<and>
   is_initialized demo_ready \<and>
   hook_instance demo_ready = Some 7 \<and>
   init demo_env (demo_getter 8) demo_ready = (Inr False, demo_ready)"
proof -
  have h1: "hook_instance demo_start = None"
    by (simp add: demo_start_def)
  have h2: "init demo_env (demo_getter 7) demo_start = (Inr True, demo_ready)"
    by (rule demo_init)
  have h3: "hook_instance demo_ready = Some 7"
    by (simp add: demo_ready_def)
  from init_twice [OF h1 h2, of "demo_getter 8"] h1 h2 h3 show ?thesis
    by simp
qed

subsection \<open>Publication after installation\<close>

text \<open>
  Claim C4. A call of \<^verbatim>\<open>init\<close> with no hook bound leaves a hook bound exactly when every
  step up to and including the hook's \<^verbatim>\<open>hook()\<close> has returned normally, and the bound
  hook is the object on which \<^verbatim>\<open>hook()\<close> returned. When one of these steps throws,
  \<^verbatim>\<open>init\<close> throws the same exception, \<^verbatim>\<open>hook_instance\<close> is still null and
  \<^verbatim>\<open>is_initialized\<close> is false.
\<close>

theorem init_publishes_after_install:
  assumes "hook_instance s = None" and "init env game_getter s = (r, s')"
  shows "(is_initialized s' \<longleftrightarrow> (\<exists>g w. install env game_getter (world s) = (Inr g, w))) \<and>
         (\<forall>e w. install env game_getter (world s) = (Inl e, w) \<longrightarrow>
            r = Inl e \<and> s' = s\<lparr>world := w\<rparr> \<and> hook_instance s' = None \<and>
            \<not> is_initialized s') \<and>
         (\<forall>g w. install env game_getter (world s) = (Inr g, w) \<longrightarrow>
            hook_instance s' = Some g \<and> (\<exists>w1. hook env g w1 = (Inr (), w)))"
proof -
  obtain ri w where iw: "install env game_getter (world s) = (ri, w)"
    by (cases "install env game_getter (world s)")
  show ?thesis
  proof (cases ri)
    case (Inl e)
    with iw assms show ?thesis
      by (auto simp: init_fresh is_initialized_def)
  next
    case (Inr g)
    with iw have ig: "install env game_getter (world s) = (Inr g, w)"
      by simp
    from install_hook_returned [OF ig] obtain w1 where "hook env g w1 = (Inr (), w)" ..
    moreover from ig assms have "hook_instance s' = Some g"
      by (auto simp: init_fresh split: prod.splits sum.splits)
    ultimately show ?thesis
      using ig by (auto simp: is_initialized_def)
  qed
qed


theorem init_publishes_after_install_witness:
  "hook_instance demo_start = None \<and>
   init demo_env_no_minhook (demo_getter 7) demo_start =
     (Inl (RuntimeError ''Minhook initialization failed!''), demo_failed) \<and>
   hook_instance demo_failed = None \<and>
   \<not> is_initialized demo_failed \<and>
   init demo_env (demo_getter 7) demo_start = (Inr True, demo_ready) \<and>
   is_initialized demo_ready \<and>
   hook_instance demo_ready = Some 7 \<and>
   hook demo_env 7 (butlast (butlast (world demo_ready))) =
     (Inr (), butlast (world demo_ready))"
proof -
  have h1: "hook_instance demo_start = None"
    by (simp add: demo_start_def)
  have w0: "world demo_start = []"
    by (simp add: demo_start_def)
  obtain r s' where h2: "init demo_env_no_minhook (demo_getter 7) demo_start = (r, s')"
    by (cases "init demo_env_no_minhook (demo_getter 7) demo_start")
  from init_publishes_after_install [OF h1 h2] demo_install_no_minhook [of 7]
  have c: "r = Inl (RuntimeError ''Minhook initialization failed!'') \<and>
      s' = demo_start\<lparr>world := [''config::load'', ''logging::init sdk/unrealsdk.log'',
                                 ''LOG v1'', ''LOG =='']\<rparr> \<and>
      \<not> is_initialized s'"
    by (auto simp: w0)
  then have "s' = demo_failed"
    by (simp add: demo_start_def demo_failed_def)
  with c have "r = Inl (RuntimeError ''Minhook initialization failed!'')"
    and "s' = demo_failed" and "\<not> is_initialized demo_failed"
    by simp_all
  moreover have h3: "init demo_env (demo_getter 7) demo_start = (Inr True, demo_ready)"
    by (rule demo_init)
  from init_publishes_after_install [OF h1 h3] demo_install [of 7]
  have "is_initialized demo_ready" and "hook_instance demo_ready = Some 7"
    by (simp_all add: w0)
  moreover have "hook demo_env 7 (butlast (butlast (world demo_ready))) =
     (Inr (), butlast (world demo_ready))"
    by (simp add: demo_env_def demo_ready_def)
  ultimately show ?thesis
    using h1 h2 h3 by (simp add: demo_failed_def)
qed

subsection \<open>The console surface before initialization\<close>

text \<open>
  Claim C9. With no hook bound, \<^verbatim>\<open>is_console_ready\<close> returns false and
  \<^verbatim>\<open>uconsole_output_text\<close> returns; neither throws, neither changes the process state,
  neither calls into a hook.
\<close>

theorem console_inert_before_init:
  assumes "hook_instance s = None"
  shows "\<not> is_initialized s \<and>
         is_console_ready env s = (Inr False, s) \<and>
         uconsole_output_text env str s = (Inr (), s)"
  using assms
  by (simp add: is_initialized_def is_console_ready_def uconsole_output_text_def)

theorem console_inert_before_init_witness:
  "hook_instance demo_start = None \<and>
   \<not> is_initialized demo_start \<and>
   is_console_ready demo_env demo_start = (Inr False, demo_start) \<and>
   uconsole_output_text demo_env [104, 105] demo_start = (Inr (), demo_start)"
proof -
  have h1: "hook_instance demo_start = None"
    by (simp add: demo_start_def)
  from console_inert_before_init [OF h1, of demo_env "[104, 105]"] h1 show ?thesis
    by simp
qed

subsection \<open>The default name of construct\_object\<close>

text \<open>
  Claim C10. With a hook bound, \<^verbatim>\<open>construct_object\<close> with a null name pointer is the
  hook's \<^verbatim>\<open>construct_object\<close> with the name \<^verbatim>\<open>{0, 0}\<close>; with a pointer to a name it is the
  hook's \<^verbatim>\<open>construct_object\<close> with that name.
\<close>

theorem construct_object_default_name:
  assumes "hook_instance s = Some h"
  shows "construct_object env cls outer None flags template_obj s =
           call (hook_construct_object env h cls outer \<lparr>index = 0, number = 0\<rparr>
                   flags template_obj) s \<and>
         construct_object env cls outer (Some n) flags template_obj s =
           call (hook_construct_object env h cls outer n flags template_obj) s"
  using assms by (simp add: construct_object_def)

theorem construct_object_default_name_witness:
  "hook_instance demo_ready = Some 7 \<and>
   construct_object demo_env 10 20 None 0 0 demo_ready =
     (Inr 1000, demo_ready\<lparr>world := world demo_ready @ [''construct'']\<rparr>) \<and>
   construct_object demo_env 10 20 (Some \<lparr>index = 5, number = 2\<rparr>) 0 0 demo_ready =
     (Inr 1005, demo_ready\<lparr>world := world demo_ready @ [''construct'']\<rparr>)"
proof -
  have h1: "hook_instance demo_ready = Some 7"
    by (simp add: demo_ready_def)
  from construct_object_default_name [OF h1, of demo_env 10 20 0 0 "\<lparr>index = 5, number = 2\<rparr>"]
  show ?thesis
    using h1 by (simp add: call_def demo_env_def)
qed

section \<open>Properties of the registry wrapper\<close>

lemma demo_size: "size_gobjects demo_host demo_gobjects = 3"
  by (simp add: size_gobjects_def demo_host_def)

lemma demo_slot: "Objects (object_arrays demo_host (internal demo_gobjects)) = demo_items"
  by (simp add: demo_host_def)

lemma Iterator_incr_in_range:
  "Suc i < size_gobjects h g \<Longrightarrow>
   Iterator_incr h \<lparr>gobjects = Some g, idx = i\<rparr> = \<lparr>gobjects = Some g, idx = Suc i\<rparr>"
  by (simp add: Iterator_incr_def)

lemma iterator_position:
  "i < size_gobjects h g \<Longrightarrow>
   (Iterator_incr h ^^ i) (begin_gobjects h g) = \<lparr>gobjects = Some g, idx = i\<rparr>"
proof (induction i)
  case 0
  then show ?case
    by (simp add: begin_gobjects_def)
next
  case (Suc i)
  then have "(Iterator_incr h ^^ i) (begin_gobjects h g) = \<lparr>gobjects = Some g, idx = i\<rparr>"
    by simp
  then have "(Iterator_incr h ^^ Suc i) (begin_gobjects h g)
      = Iterator_incr h \<lparr>gobjects = Some g, idx = i\<rparr>"
    by simp
  also from Suc.prems have "\<dots> = \<lparr>gobjects = Some g, idx = Suc i\<rparr>"
    by (rule Iterator_incr_in_range)
  finally show ?case .
qed

subsection \<open>Bounds-checked access\<close>

text \<open>
  Claim C1. \<^verbatim>\<open>obj_at\<close> fails with an out-of-range error at every index that is not below
  \<^verbatim>\<open>size()\<close>, at \<^verbatim>\<open>size()\<close> and \<^verbatim>\<open>size() + 1\<close> in particular; below \<^verbatim>\<open>size()\<close> it returns the
  object reference stored in the slot. It never reads past the host-reported bound: its
  result is the same in any host state that reports the same count and agrees on the
  slots below it, whatever lies beyond.
\<close>

theorem obj_at_bounds:
  "(size_gobjects h g \<le> i \<longrightarrow> obj_at h g i = Inl OutOfRange) \<and>
   obj_at h g (size_gobjects h g) = Inl OutOfRange \<and>
   obj_at h g (size_gobjects h g + 1) = Inl OutOfRange \<and>
   (i < size_gobjects h g \<longrightarrow>
      obj_at h g i = Inr (Object (Objects (object_arrays h (internal g)) i))) \<and>
   (same_below_count h h' g \<longrightarrow> obj_at h' g i = obj_at h g i)"
  by (simp add: obj_at_def size_gobjects_def same_below_count_def)

theorem obj_at_bounds_witness:
  "obj_at demo_host demo_gobjects 3 = Inl OutOfRange \<and>
   obj_at demo_host demo_gobjects 4 = Inl OutOfRange \<and>
   obj_at demo_host demo_gobjects 2 = Inr 300 \<and>
   same_below_count demo_host
     (host_set_slot demo_host 4096 3 \<lparr>Object = 555, SerialNumber = 1\<rparr>) demo_gobjects \<and>
   obj_at (host_set_slot demo_host 4096 3 \<lparr>Object = 555, SerialNumber = 1\<rparr>)
     demo_gobjects 2 = Inr 300"
proof -
  let ?h' = "host_set_slot demo_host 4096 3 \<lparr>Object = 555, SerialNumber = 1\<rparr>"
  have same: "same_below_count demo_host ?h' demo_gobjects"
    by (simp add: same_below_count_def host_set_slot_def demo_host_def demo_gobjects_def)
  have lt: "2 < size_gobjects demo_host demo_gobjects"
    by (simp add: demo_size)
  from obj_at_bounds [of demo_host demo_gobjects 2 ?h'] same lt
  have "obj_at demo_host demo_gobjects 2 = Inr 300"
    and "obj_at ?h' demo_gobjects 2 = Inr 300"
    and "obj_at demo_host demo_gobjects 3 = Inl OutOfRange"
    and "obj_at demo_host demo_gobjects 4 = Inl OutOfRange"
    by (simp_all add: demo_size demo_slot demo_items_def)
  with same show ?thesis
    by simp
qed

subsection \<open>The weak reference round trip\<close>

text \<open>
  Claim C2. For a non-null object that occupies a live slot, resolving the weak reference
  that \<^verbatim>\<open>set_weak_object\<close> writes for it gives the object back. A reference into the range
  whose serial differs from the slot's resolves to null. \<^verbatim>\<open>set_weak_object\<close> with a null
  object writes the "no object" encoding, which resolves to null in every host state.
\<close>

theorem weak_object_roundtrip:
  "(occupies_live_slot h g x \<longrightarrow>
      get_weak_object h g (set_weak_object h g ptr x) = Inr x) \<and>
   (0 \<le> object_index q \<and> nat (object_index q) < size_gobjects h g \<and>
    SerialNumber (Objects (object_arrays h (internal g)) (nat (object_index q)))
      \<noteq> object_serial_number q \<longrightarrow>
      get_weak_object h g q = Inr nullptr) \<and>
   set_weak_object h g ptr nullptr = FWeakObjectPtr_null \<and>
   get_weak_object h' g (set_weak_object h g ptr nullptr) = Inr nullptr"
  by (auto simp: occupies_live_slot_def get_weak_object_def set_weak_object_def
      FWeakObjectPtr_null_def Let_def)


theorem weak_object_roundtrip_witness:
  "occupies_live_slot demo_host demo_gobjects 300 \<and>
   set_weak_object demo_host demo_gobjects FWeakObjectPtr_null 300
     = \<lparr>object_index = 2, object_serial_number = 9\<rparr> \<and>
   get_weak_object demo_host demo_gobjects
     (set_weak_object demo_host demo_gobjects FWeakObjectPtr_null 300) = Inr 300 \<and>
   get_weak_object (host_set_slot demo_host 4096 2 \<lparr>Object = 700, SerialNumber = 10\<rparr>)
     demo_gobjects \<lparr>object_index = 2, object_serial_number = 9\<rparr> = Inr nullptr \<and>
   get_weak_object demo_host demo_gobjects
     (set_weak_object demo_host demo_gobjects \<lparr>object_index = 2, object_serial_number = 9\<rparr>
        nullptr) = Inr nullptr"
proof -
  let ?h' = "host_set_slot demo_host 4096 2 \<lparr>Object = 700, SerialNumber = 10\<rparr>"
  let ?q = "\<lparr>object_index = 2, object_serial_number = 9\<rparr>"
  have live: "occupies_live_slot demo_host demo_gobjects 300"
    by (simp add: occupies_live_slot_def demo_size demo_slot demo_items_def nullptr_def)
      (simp add: demo_host_def)
  have written: "set_weak_object demo_host demo_gobjects FWeakObjectPtr_null 300 = ?q"
    by (simp add: set_weak_object_def nullptr_def demo_slot FWeakObjectPtr_null_def)
      (simp add: demo_host_def demo_items_def)
  have stale: "0 \<le> object_index ?q \<and> nat (object_index ?q) < size_gobjects ?h' demo_gobjects \<and>
      SerialNumber (Objects (object_arrays ?h' (internal demo_gobjects)) (nat (object_index ?q)))
        \<noteq> object_serial_number ?q"
    by (simp add: size_gobjects_def host_set_slot_def demo_host_def demo_gobjects_def)
  from weak_object_roundtrip [of demo_host demo_gobjects 300 FWeakObjectPtr_null ?q demo_host]
    live
  have "get_weak_object demo_host demo_gobjects
     (set_weak_object demo_host demo_gobjects FWeakObjectPtr_null 300) = Inr 300"
    by blast
  moreover from weak_object_roundtrip [of ?h' demo_gobjects 300 ?q ?q demo_host] stale
  have "get_weak_object ?h' demo_gobjects ?q = Inr nullptr"
    by blast
  moreover from weak_object_roundtrip [of demo_host demo_gobjects 300 ?q ?q demo_host]
  have "get_weak_object demo_host demo_gobjects
     (set_weak_object demo_host demo_gobjects ?q nullptr) = Inr nullptr"
    by blast
  ultimately show ?thesis
    using live written by simp
qed

subsection \<open>Indexing and iteration\<close>

text \<open>
  Claim C5. For every index \<open>i\<close> below \<^verbatim>\<open>size()\<close>, dereferencing the iterator obtained from
  \<^verbatim>\<open>begin()\<close> and advanced \<open>i\<close> times gives what \<^verbatim>\<open>obj_at(i)\<close> gives.
\<close>

theorem obj_at_iterator:
  assumes "i < size_gobjects h g"
  shows "Iterator_deref h ((Iterator_incr h ^^ i) (begin_gobjects h g)) = obj_at h g i"
  by (simp add: iterator_position [OF assms] Iterator_deref_def)

theorem obj_at_iterator_witness:
  "2 < size_gobjects demo_host demo_gobjects \<and>
   Iterator_deref demo_host
     (Iterator_incr demo_host (Iterator_incr demo_host (begin_gobjects demo_host demo_gobjects)))
     = Inr 300 \<and>
   obj_at demo_host demo_gobjects 2 = Inr 300"
proof -
  have lt: "2 < size_gobjects demo_host demo_gobjects"
    by (simp add: demo_size)
  have at: "obj_at demo_host demo_gobjects 2 = Inr 300"
    by (simp add: obj_at_def demo_size demo_slot demo_items_def)
  from obj_at_iterator [OF lt] at lt show ?thesis
    by (simp add: numeral_2_eq_2)
qed

subsection \<open>The size is never cached\<close>

text \<open>
  Claim C7. \<^verbatim>\<open>size()\<close> is the count the host structure holds at the moment of the call:
  after the host has set the count to \<open>n\<close>, \<^verbatim>\<open>size()\<close> is \<open>n\<close>. The wrapper has no state but
  the pointer to the host structure.
\<close>

theorem size_reads_live_count:
  "size_gobjects h g = Count (object_arrays h (internal g)) \<and>
   size_gobjects (host_set_count h (internal g) n) g = n \<and>
   g = \<lparr>internal = internal g\<rparr>"
  by (simp add: size_gobjects_def host_set_count_def)

theorem size_reads_live_count_witness:
  "size_gobjects demo_host demo_gobjects = 3 \<and>
   size_gobjects (host_set_count demo_host 4096 5) demo_gobjects = 5 \<and>
   size_gobjects (host_set_count (host_set_count demo_host 4096 5) 4096 2) demo_gobjects = 2"
  using size_reads_live_count [of demo_host demo_gobjects 5]
    size_reads_live_count [of "host_set_count demo_host 4096 5" demo_gobjects 2]
  by (simp add: demo_gobjects_def demo_host_def host_set_count_def)

subsection \<open>Weak references outside the logical range\<close>

text \<open>
  Claim C8. A weak reference whose index is negative or not below the count resolves to
  null, without an error; \<^verbatim>\<open>obj_at\<close> at the same index fails with the out-of-range error.
\<close>

theorem get_weak_object_out_of_range:
  assumes "object_index ptr < 0 \<or> int (size_gobjects h g) \<le> object_index ptr"
  shows "get_weak_object h g ptr = Inr nullptr \<and>
         (0 \<le> object_index ptr \<longrightarrow> obj_at h g (nat (object_index ptr)) = Inl OutOfRange)"
  using assms by (auto simp: get_weak_object_def obj_at_def)

theorem get_weak_object_out_of_range_witness:
  "int (size_gobjects demo_host demo_gobjects) \<le> 3 \<and>
   get_weak_object demo_host demo_gobjects \<lparr>object_index = 3, object_serial_number = 5\<rparr>
     = Inr nullptr \<and>
   obj_at demo_host demo_gobjects 3 = Inl OutOfRange \<and>
   Objects (object_arrays demo_host (internal demo_gobjects)) 3
     = \<lparr>Object = 999, SerialNumber = 5\<rparr>"
proof -
  have h1: "int (size_gobjects demo_host demo_gobjects) \<le> 3"
    by (simp add: demo_size)
  from get_weak_object_out_of_range
    [of "\<lparr>object_index = 3, object_serial_number = 5\<rparr>" demo_host demo_gobjects] h1
  show ?thesis
    by (simp add: demo_slot demo_items_def)
qed

section \<open>Properties of the layout descriptors\<close>

lemma layout_base: "base_class d = Some b \<Longrightarrow> layout d = layout b @ members d"
  by (subst layout.simps) simp

lemma layout_root: "base_class d = None \<Longrightarrow> layout d = members d"
  by (subst layout.simps) simp

text \<open>
  Claim C6, as stated, has the struct descriptor extend the property descriptor. In
  \<^verbatim>\<open>offsets.h\<close> \<^verbatim>\<open>UStruct\<close> is declared with base \<^verbatim>\<open>UField\<close>, and its layout does not start with
  the layout of \<^verbatim>\<open>UProperty\<close>.
\<close>

theorem struct_extends_property_counterexample:
  "base_class UStruct = Some UField \<and> base_class UStruct \<noteq> Some UProperty \<and>
   take (length (layout UProperty)) (layout UStruct) \<noteq> layout UProperty"
  by (simp add: layout_base layout_root generic_UField_base_def generic_UField_members_def)

text \<open>
  Claim C6, amended. In the bl3 flavour the descriptors form a single-inheritance tree:
  the field extends the base object, the property and the struct each extend the field,
  the class and the function each extend the struct; the sequence of members of every
  descriptor with a base is that of its base followed by the members it declares itself.
\<close>

theorem inheritance_chain:
  "base_class UObject = None \<and>
   base_class UField = Some UObject \<and>
   base_class UProperty = Some UField \<and>
   base_class UStruct = Some UField \<and>
   base_class UClass = Some UStruct \<and>
   base_class UFunction = Some UStruct \<and>
   (\<forall>d b. base_class d = Some b \<longrightarrow> layout d = layout b @ members d)"
  by (simp add: layout_base generic_UField_base_def)

theorem inheritance_chain_witness:
  "base_class UClass = Some UStruct \<and>
   layout UClass = layout UStruct @ members UClass \<and>
   layout UStruct = members UObject @ members UField @ members UStruct \<and>
   layout UProperty = members UObject @ members UField @ members UProperty \<and>
   layout UFunction = members UObject @ members UField @ members UStruct @ members UFunction"
  using inheritance_chain
  by (simp add: layout_root generic_UField_base_def)

end
